theory Spec2Isabelle
  imports Main "HOL-Library.Word" "HOL-Library.Sublist"
begin

section \<open>The IMAPViewer launcher (src/launcher/main.cpp)\<close>

text \<open>
  The launcher is a straight-line program whose whole behaviour is the sequence of
  operating-system and library calls it makes and the value \<open>main\<close> returns. The
  embedding therefore has two parts: an \<open>os\<close> record holding what the operating system
  answers to each call, and, for every function of the source, a HOL function returning
  the list of calls made (the trace) together with the function's result.
\<close>

subsection \<open>Characters, strings and machine integers\<close>

text \<open>
  \<open>wchar_t\<close> on Windows is a 16-bit code unit, \<open>char\<close> an 8-bit one; \<open>DWORD\<close> is an
  unsigned 32-bit integer and \<open>int\<close> a 32-bit integer. \<open>static_cast<int>\<close> of a \<open>DWORD\<close>
  keeps the 32 bits, so both are the same \<open>32 word\<close>; \<open>unat\<close> reads the value the way
  the operating system records an exit code, \<open>sint\<close> the way C++ reads an \<open>int\<close>.
\<close>

type_synonym wchar = "16 word"
type_synonym wstring = "wchar list"
type_synonym cchar = "8 word"
type_synonym cstring = "cchar list"
type_synonym DWORD = "32 word"
type_synonym c_int = "32 word"
type_synonym HANDLE = nat

text \<open>A wide literal \<open>L"..."\<close> and a narrow literal \<open>"..."\<close>.\<close>

definition L :: "string \<Rightarrow> wstring" where
  "L s = map of_char s"

definition S :: "string \<Rightarrow> cstring" where
  "S s = map of_char s"

definition backslash :: string where
  "backslash = [CHR 0x5C]"

definition dquote :: string where
  "dquote = [CHR 0x22]"

definition newline :: string where
  "newline = [CHR 0x0A]"

text \<open>
  \<open>std::wstring(errorStr.begin(), errorStr.end())\<close> converts each \<open>char\<close> to
  \<open>wchar_t\<close>; \<open>char\<close> is signed on the Windows compilers, so the conversion extends
  the sign.
\<close>

definition widen :: "cstring \<Rightarrow> wstring" where
  "widen s = map scast s"

text \<open>\<open>std::wcerr << error\<close> for a \<open>DWORD\<close>: the decimal digits of its value.\<close>

definition wdigit :: "nat \<Rightarrow> wchar" where
  "wdigit d = of_nat (48 + d)"

function wdec :: "nat \<Rightarrow> wstring" where
  "wdec n = (if n < 10 then [wdigit n] else wdec (n div 10) @ [wdigit (n mod 10)])"
  by pat_completeness auto
termination
  by (relation "measure id") auto

declare wdec.simps [simp del]

text \<open>
  \<open>std::wcerr << text << std::endl\<close>. The program never sets a locale, so the stream
  converts each code unit in the "C" locale: a code unit up to \<open>0xFF\<close> becomes the byte
  of that value, and at the first code unit above \<open>0xFF\<close> the conversion fails, the
  stream goes into its failed state and emits nothing more, not even the line end.
  \<open>wcerr_line text\<close> is the bytes such a statement hands to the C runtime when the
  stream is still in its initial state, which it is whenever the source writes to it
  (lemma \<open>one_wcerr_statement\<close>: no run executes more than one such statement).
\<close>

definition narrowable :: "wchar \<Rightarrow> bool" where
  "narrowable c = (c \<le> 0xFF)"

definition wcerr_line :: "wstring \<Rightarrow> cstring" where
  "wcerr_line text =
     (let sent = map ucast (takeWhile narrowable text)
      in if list_all narrowable text then sent @ S newline else sent)"

text \<open>
  \<open>execPath.find_last_of(L"\\")\<close>: the index of the last occurrence of the character,
  \<open>npos\<close> (here \<open>None\<close>) when there is none.
\<close>

fun find_last_of :: "wstring \<Rightarrow> wchar \<Rightarrow> nat option" where
  "find_last_of [] c = None"
| "find_last_of (x # xs) c =
     (case find_last_of xs c of
        Some i \<Rightarrow> Some (Suc i)
      | None \<Rightarrow> (if x = c then Some 0 else None))"

subsection \<open>The operating system seen from the launcher\<close>

record PROCESS_INFORMATION =
  hProcess :: HANDLE
  hThread :: HANDLE

text \<open>
  A C++ exception, as the two handlers of \<open>main\<close> tell them apart: one derived from
  \<open>std::exception\<close>, with its \<open>what()\<close> text, or anything else.
\<close>

datatype exn = StdException cstring | OtherException

text \<open>
  What the environment answers:
  \<^item> \<open>moduleFileName\<close>: the string \<open>GetModuleFileNameW\<close> leaves in the buffer;
  \<^item> \<open>fsExists\<close>: \<open>std::filesystem::exists\<close>, which returns a boolean or throws;
  \<^item> \<open>createProcess\<close>, on the application name, the command line and the working
    directory: \<open>Inr\<close> the new handles, or \<open>Inl\<close> the code \<open>GetLastError\<close> then reports;
  \<^item> \<open>waitReturns\<close>: whether \<open>WaitForSingleObject(h, INFINITE)\<close> ever returns;
  \<^item> \<open>exitCodeQuery\<close>: \<open>GetExitCodeProcess\<close>, \<open>Some\<close> the code it stores on success,
    \<open>None\<close> when it fails and leaves the variable as it was.
\<close>

record os =
  moduleFileName :: wstring
  fsExists :: "wstring \<Rightarrow> exn + bool"
  createProcess :: "wstring \<Rightarrow> wstring \<Rightarrow> wstring \<Rightarrow> DWORD + PROCESS_INFORMATION"
  waitReturns :: "HANDLE \<Rightarrow> bool"
  exitCodeQuery :: "HANDLE \<Rightarrow> DWORD option"

text \<open>
  The calls the launcher makes, in the order it makes them. \<open>EvWcerr\<close> is one output
  statement on \<open>std::wcerr\<close>, with the bytes it puts on the error stream.
\<close>

datatype event =
    EvGetModuleFileNameW
  | EvFsExists wstring
  | EvCreateProcessW wstring wstring wstring "DWORD + PROCESS_INFORMATION"
  | EvGetLastError
  | EvWaitForSingleObject HANDLE
  | EvGetExitCodeProcess HANDLE
  | EvCloseHandle HANDLE
  | EvMessageBoxW wstring wstring
  | EvWcerr cstring

text \<open>
  How a piece of code ends: it returns a value, it throws, or it never comes back (the
  wait has no timeout).
\<close>

datatype 'a completion = Returns 'a | Throws exn | Blocks

subsection \<open>The functions of the source\<close>

definition GetExecutableDirectory :: "os \<Rightarrow> event list \<times> wstring" where
  "GetExecutableDirectory env =
     (let execPath = moduleFileName env in
      ([EvGetModuleFileNameW],
       (case find_last_of execPath (of_char (CHR 0x5C)) of
          Some lastSlash \<Rightarrow> take lastSlash execPath
        | None \<Rightarrow> L ''.'')))"

definition FileExists :: "os \<Rightarrow> wstring \<Rightarrow> event list \<times> (exn + bool)" where
  "FileExists env path = ([EvFsExists path], fsExists env path)"

definition LaunchApplication :: "os \<Rightarrow> wstring \<Rightarrow> wstring \<Rightarrow> event list \<times> c_int completion" where
  "LaunchApplication env executablePath workingDir =
     (let cmdLine = L dquote @ executablePath @ L dquote;
          success = createProcess env executablePath cmdLine workingDir;
          spawn = EvCreateProcessW executablePath cmdLine workingDir success
      in case success of
           Inl error \<Rightarrow>
             ([spawn, EvGetLastError,
               EvWcerr (wcerr_line (L ''Failed to launch application. Error code: '' @
                                    wdec (unat error)))],
              Returns 1)
         | Inr pi \<Rightarrow>
             if waitReturns env (hProcess pi) then
               (let exitCode = (case exitCodeQuery env (hProcess pi) of
                                  Some code \<Rightarrow> code
                                | None \<Rightarrow> 0)
                in ([spawn, EvWaitForSingleObject (hProcess pi),
                     EvGetExitCodeProcess (hProcess pi),
                     EvCloseHandle (hProcess pi), EvCloseHandle (hThread pi)],
                    Returns exitCode))
             else ([spawn, EvWaitForSingleObject (hProcess pi)], Blocks))"

definition ShowError :: "wstring \<Rightarrow> event list" where
  "ShowError message =
     [EvMessageBoxW message (L ''IMAPViewer Launcher Error''), EvWcerr (wcerr_line message)]"

text \<open>
  The body of the \<open>try\<close> block of \<open>main\<close>. Of the calls it makes,
  \<open>std::filesystem::exists\<close> is the one that throws (a \<open>filesystem_error\<close> when the
  file system cannot answer); the Win32 functions are C functions and report a failure by
  their return value. Memory is unbounded here; \<open>main_try_throwing\<close> below adds the
  string constructions that fail when it is not.
\<close>

definition main_try :: "os \<Rightarrow> event list \<times> c_int completion" where
  "main_try env =
     (let (t1, launcherDir) = GetExecutableDirectory env;
          targetExe = launcherDir @ L (backslash @ ''app'' @ backslash @ ''imapviewer.exe'');
          (t2, found) = FileExists env targetExe
      in case found of
           Inl e \<Rightarrow> (t1 @ t2, Throws e)
         | Inr False \<Rightarrow>
             (let errorMsg = L (''Could not find the main application at:'' @ newline) @ targetExe @
                    L (newline @ newline @
                       ''Please ensure the application is properly installed.'')
              in (t1 @ t2 @ ShowError errorMsg, Returns 1))
         | Inr True \<Rightarrow>
             (let appDir = launcherDir @ L (backslash @ ''app'');
                  (t3, exitCode) = LaunchApplication env targetExe appDir
              in (t1 @ t2 @ t3, exitCode)))"

text \<open>
  \<open>main\<close> with its two handlers. The result is \<open>None\<close> when the launcher never returns.
\<close>

definition main :: "os \<Rightarrow> event list \<times> c_int option" where
  "main env =
     (case main_try env of
        (t, Returns r) \<Rightarrow> (t, Some r)
      | (t, Blocks) \<Rightarrow> (t, None)
      | (t, Throws (StdException what)) \<Rightarrow>
          (t @ ShowError (widen (S ''Unexpected error: '' @ what)), Some 1)
      | (t, Throws OtherException) \<Rightarrow>
          (t @ ShowError (L ''An unexpected error occurred while launching the application.''),
           Some 1))"

subsection \<open>Reading a trace\<close>

text \<open>
  The install directory \<open>D\<close> of a run and the target path the source computes from it,
  written once for the statements below.
\<close>

abbreviation launcherDir_of :: "os \<Rightarrow> wstring" where
  "launcherDir_of env \<equiv> snd (GetExecutableDirectory env)"

abbreviation targetExe_of :: "os \<Rightarrow> wstring" where
  "targetExe_of env \<equiv>
     launcherDir_of env @ L (backslash @ ''app'' @ backslash @ ''imapviewer.exe'')"

abbreviation cmdLine_of :: "os \<Rightarrow> wstring" where
  "cmdLine_of env \<equiv> L dquote @ targetExe_of env @ L dquote"

abbreviation appDir_of :: "os \<Rightarrow> wstring" where
  "appDir_of env \<equiv> launcherDir_of env @ L (backslash @ ''app'')"

text \<open>
  The process creations of a trace, each as (application name, command line, working
  directory); the dialog texts; the bytes each output statement put on the error stream;
  the paths whose existence was checked.
\<close>

fun spawns :: "event list \<Rightarrow> (wstring \<times> wstring \<times> wstring) list" where
  "spawns [] = []"
| "spawns (EvCreateProcessW app cmd cwd r # es) = (app, cmd, cwd) # spawns es"
| "spawns (e # es) = spawns es"

fun dialogs :: "event list \<Rightarrow> wstring list" where
  "dialogs [] = []"
| "dialogs (EvMessageBoxW text caption # es) = text # dialogs es"
| "dialogs (e # es) = dialogs es"

fun stderr_lines :: "event list \<Rightarrow> cstring list" where
  "stderr_lines [] = []"
| "stderr_lines (EvWcerr line # es) = line # stderr_lines es"
| "stderr_lines (e # es) = stderr_lines es"

fun existence_checks :: "event list \<Rightarrow> wstring list" where
  "existence_checks [] = []"
| "existence_checks (EvFsExists path # es) = path # existence_checks es"
| "existence_checks (e # es) = existence_checks es"

text \<open>
  The handles held after a trace, starting from the handles \<open>hs\<close>: a successful
  \<open>CreateProcessW\<close> adds the two handles it returns, \<open>CloseHandle\<close> removes one.
\<close>

fun open_handles :: "HANDLE list \<Rightarrow> event list \<Rightarrow> HANDLE list" where
  "open_handles hs [] = hs"
| "open_handles hs (EvCreateProcessW app cmd cwd (Inr pi) # es) =
     open_handles (hProcess pi # hThread pi # hs) es"
| "open_handles hs (EvCloseHandle h # es) = open_handles (remove1 h hs) es"
| "open_handles hs (e # es) = open_handles hs es"



text \<open>
  A family of concrete environments: the launcher is installed as
  \<open>C:\IMAPViewer\launcher.exe\<close>, and the four answers are the parameters.
\<close>

definition sample_os ::
  "(exn + bool) \<Rightarrow> (DWORD + PROCESS_INFORMATION) \<Rightarrow> bool \<Rightarrow> DWORD option \<Rightarrow> os" where
  "sample_os found spawned waited code =
     \<lparr>moduleFileName = L (''C:'' @ backslash @ ''IMAPViewer'' @ backslash @ ''launcher.exe''),
      fsExists = (\<lambda>path. found),
      createProcess = (\<lambda>app cmd cwd. spawned),
      waitReturns = (\<lambda>h. waited),
      exitCodeQuery = (\<lambda>h. code)\<rparr>"

subsection \<open>The launcher when building a string can fail\<close>

text \<open>
  The functions above take memory as unbounded. The handlers of \<open>main\<close> are there for
  the case that it is not: every \<open>std::wstring\<close> and \<open>std::string\<close> the program builds
  can throw \<open>std::bad_alloc\<close> or \<open>std::length_error\<close>. The places where the source
  builds one:
  \<^item> \<open>ExecPath\<close>: in \<open>GetExecutableDirectory\<close>, after \<open>GetModuleFileNameW\<close> (the string
    made from the buffer, the \<open>substr\<close>, the \<open>L"."\<close>);
  \<^item> \<open>TargetExe\<close>: \<open>launcherDir + L"\\app\\imapviewer.exe"\<close>;
  \<^item> \<open>ErrorMsg\<close>: the text for the missing target;
  \<^item> \<open>AppDir\<close>: \<open>launcherDir + L"\\app"\<close>;
  \<^item> \<open>CmdLine\<close>: the quoted command line, in \<open>LaunchApplication\<close> before \<open>CreateProcessW\<close>;
  \<^item> \<open>HandlerMsg\<close>: the text a handler of \<open>main\<close> builds before it calls \<open>ShowError\<close>.

  \<open>strings site = Some e\<close> says that the construction at \<open>site\<close> throws \<open>e\<close>. The
  functions below are the functions above with these throw points added; with no failing
  site they are the same (lemmas \<open>main_try_throwing_no_failure\<close> and
  \<open>main_throwing_no_failure\<close>). The Win32 calls (\<open>CreateProcessW\<close>,
  \<open>WaitForSingleObject\<close>, \<open>GetExitCodeProcess\<close>, \<open>CloseHandle\<close>, \<open>MessageBoxW\<close>) are C
  functions and throw nothing, and \<open>std::wcerr\<close> does not throw with its default
  exception mask. An exception that leaves \<open>main\<close> is the result \<open>Throws\<close>.
\<close>

datatype string_site = ExecPath | TargetExe | ErrorMsg | AppDir | CmdLine | HandlerMsg

definition GetExecutableDirectory_throwing ::
  "(string_site \<Rightarrow> exn option) \<Rightarrow> os \<Rightarrow> event list \<times> (exn + wstring)" where
  "GetExecutableDirectory_throwing strings env =
     (case strings ExecPath of
        Some e \<Rightarrow> ([EvGetModuleFileNameW], Inl e)
      | None \<Rightarrow> (fst (GetExecutableDirectory env), Inr (snd (GetExecutableDirectory env))))"

definition LaunchApplication_throwing ::
  "(string_site \<Rightarrow> exn option) \<Rightarrow> os \<Rightarrow> wstring \<Rightarrow> wstring \<Rightarrow> event list \<times> c_int completion" where
  "LaunchApplication_throwing strings env executablePath workingDir =
     (case strings CmdLine of
        Some e \<Rightarrow> ([], Throws e)
      | None \<Rightarrow> LaunchApplication env executablePath workingDir)"

definition main_try_throwing ::
  "(string_site \<Rightarrow> exn option) \<Rightarrow> os \<Rightarrow> event list \<times> c_int completion" where
  "main_try_throwing strings env =
     (case GetExecutableDirectory_throwing strings env of
        (t1, Inl e) \<Rightarrow> (t1, Throws e)
      | (t1, Inr launcherDir) \<Rightarrow>
          (case strings TargetExe of
             Some e \<Rightarrow> (t1, Throws e)
           | None \<Rightarrow>
               (let targetExe = launcherDir @
                      L (backslash @ ''app'' @ backslash @ ''imapviewer.exe'');
                    (t2, found) = FileExists env targetExe
                in case found of
                     Inl e \<Rightarrow> (t1 @ t2, Throws e)
                   | Inr False \<Rightarrow>
                       (case strings ErrorMsg of
                          Some e \<Rightarrow> (t1 @ t2, Throws e)
                        | None \<Rightarrow>
                            (let errorMsg =
                                   L (''Could not find the main application at:'' @ newline) @
                                   targetExe @
                                   L (newline @ newline @
                                      ''Please ensure the application is properly installed.'')
                             in (t1 @ t2 @ ShowError errorMsg, Returns 1)))
                   | Inr True \<Rightarrow>
                       (case strings AppDir of
                          Some e \<Rightarrow> (t1 @ t2, Throws e)
                        | None \<Rightarrow>
                            (let appDir = launcherDir @ L (backslash @ ''app'');
                                 (t3, exitCode) =
                                   LaunchApplication_throwing strings env targetExe appDir
                             in (t1 @ t2 @ t3, exitCode))))))"

definition main_throwing ::
  "(string_site \<Rightarrow> exn option) \<Rightarrow> os \<Rightarrow> event list \<times> c_int completion" where
  "main_throwing strings env =
     (case main_try_throwing strings env of
        (t, Returns r) \<Rightarrow> (t, Returns r)
      | (t, Blocks) \<Rightarrow> (t, Blocks)
      | (t, Throws (StdException what)) \<Rightarrow>
          (case strings HandlerMsg of
             Some e' \<Rightarrow> (t, Throws e')
           | None \<Rightarrow>
               (t @ ShowError (widen (S ''Unexpected error: '' @ what)), Returns 1))
      | (t, Throws OtherException) \<Rightarrow>
          (case strings HandlerMsg of
             Some e' \<Rightarrow> (t, Throws e')
           | None \<Rightarrow>
               (t @ ShowError
                      (L ''An unexpected error occurred while launching the application.''),
                Returns 1)))"


definition failure_at :: "string_site \<Rightarrow> exn \<Rightarrow> string_site \<Rightarrow> exn option" where
  "failure_at bad e site = (if site = bad then Some e else None)"



section \<open>Properties\<close>

subsection \<open>The runs of \<open>main\<close>\<close>

lemma sample_os_dir:
  "launcherDir_of (sample_os found spawned waited code) = L (''C:'' @ backslash @ ''IMAPViewer'')"
  by (simp add: GetExecutableDirectory_def sample_os_def L_def backslash_def)

lemma sample_os_fields:
  "fsExists (sample_os found spawned waited code) p = found"
  "createProcess (sample_os found spawned waited code) a c w = spawned"
  "waitReturns (sample_os found spawned waited code) h = waited"
  "exitCodeQuery (sample_os found spawned waited code) h = code"
  by (simp_all add: sample_os_def)

lemma main_try_throws:
  assumes "fsExists env (targetExe_of env) = Inl e"
  shows "main_try env = ([EvGetModuleFileNameW, EvFsExists (targetExe_of env)], Throws e)"
  using assms by (simp add: main_try_def GetExecutableDirectory_def FileExists_def Let_def)

lemma main_try_not_found:
  assumes "fsExists env (targetExe_of env) = Inr False"
  shows "main_try env =
           ([EvGetModuleFileNameW, EvFsExists (targetExe_of env)] @
            ShowError (L (''Could not find the main application at:'' @ newline) @
                       targetExe_of env @
                       L (newline @ newline @
                          ''Please ensure the application is properly installed.'')),
            Returns 1)"
  using assms by (simp add: main_try_def GetExecutableDirectory_def FileExists_def Let_def)

lemma main_try_found:
  assumes "fsExists env (targetExe_of env) = Inr True"
  shows "main_try env =
           ([EvGetModuleFileNameW, EvFsExists (targetExe_of env)] @
            fst (LaunchApplication env (targetExe_of env)
                   (launcherDir_of env @ L (backslash @ ''app''))),
            snd (LaunchApplication env (targetExe_of env)
                   (launcherDir_of env @ L (backslash @ ''app''))))"
  using assms
  by (simp add: main_try_def GetExecutableDirectory_def FileExists_def Let_def
      split: prod.splits)

lemma spawns_LaunchApplication:
  "spawns (fst (LaunchApplication env p w)) = [(p, L dquote @ p @ L dquote, w)]"
  by (simp add: LaunchApplication_def Let_def split: sum.splits)

lemma LaunchApplication_not_Throws:
  "snd (LaunchApplication env p w) \<noteq> Throws e"
  by (simp add: LaunchApplication_def Let_def split: sum.splits option.splits)

lemma exists_cases:
  obtains (throws) e where "fsExists env p = Inl e"
  | (absent) "fsExists env p = Inr False"
  | (present) "fsExists env p = Inr True"
  by (cases "fsExists env p") auto

lemma spawns_main:
  "spawns (fst (main env)) =
     (if fsExists env (targetExe_of env) = Inr True
      then [(targetExe_of env, L dquote @ targetExe_of env @ L dquote,
             launcherDir_of env @ L (backslash @ ''app''))]
      else [])"
proof (cases env "targetExe_of env" rule: exists_cases)
  case (throws e)
  then show ?thesis
    by (cases e) (simp_all add: main_def main_try_throws ShowError_def)
next
  case absent
  then show ?thesis
    by (simp add: main_def main_try_not_found ShowError_def)
next
  case present
  define T where "T = targetExe_of env"
  define W where "W = launcherDir_of env @ L (backslash @ ''app'')"
  have mt: "main_try env =
      ([EvGetModuleFileNameW, EvFsExists T] @ fst (LaunchApplication env T W),
       snd (LaunchApplication env T W))"
    unfolding T_def W_def by (rule main_try_found [OF present])
  have sp: "spawns (fst (LaunchApplication env T W)) = [(T, L dquote @ T @ L dquote, W)]"
    by (rule spawns_LaunchApplication)
  have "spawns (fst (main env)) = [(T, L dquote @ T @ L dquote, W)]"
  proof (cases "snd (LaunchApplication env T W)")
    case (Returns r)
    then show ?thesis by (simp add: main_def mt sp)
  next
    case (Throws e)
    then show ?thesis by (simp add: LaunchApplication_not_Throws)
  next
    case Blocks
    then show ?thesis by (simp add: main_def mt sp)
  qed
  then show ?thesis
    using present unfolding T_def W_def by simp
qed

text \<open>The five runs of \<open>main\<close>, each with its whole trace.\<close>

lemma main_throws_std:
  assumes "fsExists env (targetExe_of env) = Inl (StdException what)"
  shows "main env =
           ([EvGetModuleFileNameW, EvFsExists (targetExe_of env)] @
            ShowError (widen (S ''Unexpected error: '' @ what)), Some 1)"
  by (simp add: main_def main_try_throws [OF assms])

lemma main_throws_other:
  assumes "fsExists env (targetExe_of env) = Inl OtherException"
  shows "main env =
           ([EvGetModuleFileNameW, EvFsExists (targetExe_of env)] @
            ShowError (L ''An unexpected error occurred while launching the application.''),
            Some 1)"
  by (simp add: main_def main_try_throws [OF assms])

lemma main_not_found:
  assumes "fsExists env (targetExe_of env) = Inr False"
  shows "main env =
           ([EvGetModuleFileNameW, EvFsExists (targetExe_of env)] @
            ShowError (L (''Could not find the main application at:'' @ newline) @
                       targetExe_of env @
                       L (newline @ newline @
                          ''Please ensure the application is properly installed.'')),
            Some 1)"
  by (simp add: main_def main_try_not_found [OF assms])

lemma main_spawn_failed:
  assumes "fsExists env (targetExe_of env) = Inr True"
    and "createProcess env (targetExe_of env) (cmdLine_of env) (appDir_of env) = Inl code"
  shows "main env =
           ([EvGetModuleFileNameW, EvFsExists (targetExe_of env),
             EvCreateProcessW (targetExe_of env) (cmdLine_of env) (appDir_of env) (Inl code),
             EvGetLastError,
             EvWcerr (wcerr_line (L ''Failed to launch application. Error code: '' @
                                  wdec (unat code)))],
            Some 1)"
  using assms(2)
  by (simp add: main_def main_try_found [OF assms(1)] LaunchApplication_def Let_def)

lemma main_child_ran:
  assumes "fsExists env (targetExe_of env) = Inr True"
    and "createProcess env (targetExe_of env) (cmdLine_of env) (appDir_of env) = Inr pi"
    and "waitReturns env (hProcess pi)"
  shows "main env =
           ([EvGetModuleFileNameW, EvFsExists (targetExe_of env),
             EvCreateProcessW (targetExe_of env) (cmdLine_of env) (appDir_of env) (Inr pi),
             EvWaitForSingleObject (hProcess pi), EvGetExitCodeProcess (hProcess pi),
             EvCloseHandle (hProcess pi), EvCloseHandle (hThread pi)],
            Some (case exitCodeQuery env (hProcess pi) of Some code \<Rightarrow> code | None \<Rightarrow> 0))"
  using assms(2,3)
  by (simp add: main_def main_try_found [OF assms(1)] LaunchApplication_def Let_def)

lemma main_child_hangs:
  assumes "fsExists env (targetExe_of env) = Inr True"
    and "createProcess env (targetExe_of env) (cmdLine_of env) (appDir_of env) = Inr pi"
    and "\<not> waitReturns env (hProcess pi)"
  shows "main env =
           ([EvGetModuleFileNameW, EvFsExists (targetExe_of env),
             EvCreateProcessW (targetExe_of env) (cmdLine_of env) (appDir_of env) (Inr pi),
             EvWaitForSingleObject (hProcess pi)],
            None)"
  using assms(2,3)
  by (simp add: main_def main_try_found [OF assms(1)] LaunchApplication_def Let_def)

lemma main_cases:
  obtains (throws) e where "fsExists env (targetExe_of env) = Inl e"
  | (not_found) "fsExists env (targetExe_of env) = Inr False"
  | (spawn_failed) code where "fsExists env (targetExe_of env) = Inr True"
      and "createProcess env (targetExe_of env) (cmdLine_of env) (appDir_of env) = Inl code"
  | (child_ran) pi where "fsExists env (targetExe_of env) = Inr True"
      and "createProcess env (targetExe_of env) (cmdLine_of env) (appDir_of env) = Inr pi"
      and "waitReturns env (hProcess pi)"
  | (child_hangs) pi where "fsExists env (targetExe_of env) = Inr True"
      and "createProcess env (targetExe_of env) (cmdLine_of env) (appDir_of env) = Inr pi"
      and "\<not> waitReturns env (hProcess pi)"
proof (cases env "targetExe_of env" rule: exists_cases)
  case (throws e)
  then show ?thesis by (rule that(1))
next
  case absent
  then show ?thesis by (rule that(2))
next
  case present
  show ?thesis
  proof (cases "createProcess env (targetExe_of env) (cmdLine_of env) (appDir_of env)")
    case (Inl code)
    with present show ?thesis by (rule that(3))
  next
    case (Inr pi)
    with present show ?thesis
      by (cases "waitReturns env (hProcess pi)") (rule that(4), assumption+, rule that(5))
  qed
qed

text \<open>The directory is read from the module file name and from nothing else.\<close>

lemma launcherDir_of_update:
  "launcherDir_of (env\<lparr>fsExists := f, createProcess := c, waitReturns := w, exitCodeQuery := q\<rparr>) =
   launcherDir_of env"
  by (simp add: GetExecutableDirectory_def)

lemma launcherDir_of_exitCodeQuery_update:
  "launcherDir_of (env\<lparr>exitCodeQuery := q\<rparr>) = launcherDir_of env"
  by (simp add: GetExecutableDirectory_def)

text \<open>The \<open>try\<close> block throws exactly when the existence check does.\<close>

lemma main_try_Throws_iff:
  "snd (main_try env) = Throws e \<longleftrightarrow> fsExists env (targetExe_of env) = Inl e"
proof (cases env "targetExe_of env" rule: exists_cases)
  case (throws e')
  then show ?thesis by (simp add: main_try_throws)
next
  case absent
  then show ?thesis by (simp add: main_try_not_found)
next
  case present
  then show ?thesis by (simp add: main_try_found LaunchApplication_not_Throws)
qed

lemma existence_checks_main:
  "existence_checks (fst (main env)) = [targetExe_of env]"
proof (cases env rule: main_cases)
  case (throws e)
  then show ?thesis
    by (cases e) (simp_all add: main_throws_std main_throws_other ShowError_def)
next
  case not_found
  then show ?thesis by (simp add: main_not_found ShowError_def)
next
  case (spawn_failed code)
  then show ?thesis by (simp add: main_spawn_failed)
next
  case (child_ran pi)
  then show ?thesis by (simp add: main_child_ran)
next
  case (child_hangs pi)
  then show ?thesis by (simp add: main_child_hangs)
qed

lemma sint_of_nat_32:
  assumes "N < 2 ^ 32"
  shows "sint (of_nat N :: 32 word) = (if N < 2 ^ 31 then int N else int N - 2 ^ 32)"
proof -
  have s: "sint (of_nat N :: 32 word) = signed_take_bit 31 (int N)"
    by (simp add: signed_of_nat)
  show ?thesis
  proof (cases "N < 2 ^ 31")
    case True
    then have "signed_take_bit 31 (int N) = int N"
      by (intro signed_take_bit_int_eq_self) simp_all
    with s True show ?thesis by simp
  next
    case False
    have "take_bit (Suc 31) (int N) = take_bit (Suc 31) (int N - 2 ^ 32)"
      by (simp add: take_bit_eq_mod)
    then have "signed_take_bit 31 (int N) = signed_take_bit 31 (int N - 2 ^ 32)"
      by (simp only: signed_take_bit_eq_iff_take_bit_eq)
    also have "\<dots> = int N - 2 ^ 32"
      using False assms by (intro signed_take_bit_int_eq_self) simp_all
    finally show ?thesis using s False by simp
  qed
qed

subsection \<open>What the error stream emits\<close>














lemma one_wcerr_statement: "length (stderr_lines (fst (main env))) \<le> 1"
proof (cases env rule: main_cases)
  case (throws e)
  then show ?thesis
    by (cases e) (simp_all add: main_throws_std main_throws_other ShowError_def)
next
  case not_found
  then show ?thesis by (simp add: main_not_found ShowError_def)
next
  case (spawn_failed code)
  then show ?thesis by (simp add: main_spawn_failed)
next
  case (child_ran pi)
  then show ?thesis by (simp add: main_child_ran)
next
  case (child_hangs pi)
  then show ?thesis by (simp add: main_child_hangs)
qed


subsection \<open>The model with failing string construction\<close>

lemma LaunchApplication_eq_not_Throws:
  "LaunchApplication env p w = (t, r) \<Longrightarrow> r \<noteq> Throws e"
  using LaunchApplication_not_Throws [of env p w e] by simp




lemma main_try_throwing_Throws_trace:
  assumes "snd (main_try_throwing strings env) = Throws e"
  shows "fst (main_try_throwing strings env) = [EvGetModuleFileNameW] \<or>
         fst (main_try_throwing strings env) =
           [EvGetModuleFileNameW, EvFsExists (targetExe_of env)]"
  using assms
  by (auto simp add: main_try_throwing_def GetExecutableDirectory_throwing_def
      LaunchApplication_throwing_def FileExists_def GetExecutableDirectory_def Let_def
      split: option.splits sum.splits bool.splits prod.splits
      dest: LaunchApplication_eq_not_Throws)

lemma stderr_lines_append:
  "stderr_lines (xs @ ys) = stderr_lines xs @ stderr_lines ys"
  by (induction xs rule: stderr_lines.induct) simp_all

lemma stderr_lines_LaunchApplication:
  "LaunchApplication env p w = (t, r) \<Longrightarrow> length (stderr_lines t) \<le> 1"
  by (auto simp add: LaunchApplication_def Let_def split: sum.splits if_splits)

lemma stderr_lines_main_try_throwing:
  "length (stderr_lines (fst (main_try_throwing strings env))) \<le> 1"
proof (cases "strings ExecPath")
  case (Some e)
  then show ?thesis
    by (simp add: main_try_throwing_def GetExecutableDirectory_throwing_def)
next
  case None
  note ep = None
  show ?thesis
  proof (cases "strings TargetExe")
    case (Some e)
    then show ?thesis
      by (simp add: main_try_throwing_def GetExecutableDirectory_throwing_def
          GetExecutableDirectory_def Let_def ep)
  next
    case None
    note te = None
    show ?thesis
    proof (cases env "targetExe_of env" rule: exists_cases)
      case (throws e)
      then show ?thesis
        by (simp add: main_try_throwing_def GetExecutableDirectory_throwing_def
            GetExecutableDirectory_def FileExists_def Let_def ep te)
    next
      case absent
      then show ?thesis
        by (simp add: main_try_throwing_def GetExecutableDirectory_throwing_def
            GetExecutableDirectory_def FileExists_def ShowError_def Let_def ep te
            split: option.splits)
    next
      case present
      then show ?thesis
        by (auto simp add: main_try_throwing_def GetExecutableDirectory_throwing_def
            GetExecutableDirectory_def FileExists_def LaunchApplication_throwing_def Let_def
            ep te
            split: option.splits prod.splits dest: stderr_lines_LaunchApplication)
    qed
  qed
qed

lemma one_wcerr_statement_throwing:
  "length (stderr_lines (fst (main_throwing strings env))) \<le> 1"
proof (cases "main_try_throwing strings env")
  case (Pair t r)
  show ?thesis
  proof (cases r)
    case (Returns x)
    with Pair stderr_lines_main_try_throwing [of strings env] show ?thesis
      by (simp add: main_throwing_def)
  next
    case Blocks
    with Pair stderr_lines_main_try_throwing [of strings env] show ?thesis
      by (simp add: main_throwing_def)
  next
    case (Throws e)
    with Pair have "snd (main_try_throwing strings env) = Throws e" by simp
    from main_try_throwing_Throws_trace [OF this] Pair
    have "stderr_lines t = []" by auto
    with Pair Throws show ?thesis
      by (cases e)
        (simp_all add: main_throwing_def ShowError_def stderr_lines_append split: option.splits)
  qed
qed

subsection \<open>Exit code forwarding\<close>

text \<open>
  Claim C2. For every child process that terminates with exit code \<open>N\<close>, where
  \<open>0 \<le> N < 2^32\<close>, the exit code of the launcher (the value \<open>main\<close> returns on the
  success path) equals \<open>N\<close>. The child's exit code is what \<open>GetExitCodeProcess\<close> stores
  after the wait has returned; the launcher's exit code is read as the operating system
  records it, as an unsigned 32-bit value.
\<close>

theorem C2_exit_code_forwarded:
  assumes "N < 2 ^ 32"
    and "fsExists env (targetExe_of env) = Inr True"
    and "createProcess env (targetExe_of env) (cmdLine_of env) (appDir_of env) = Inr pi"
    and "waitReturns env (hProcess pi)"
    and "exitCodeQuery env (hProcess pi) = Some (of_nat N)"
  shows "map_option unat (snd (main env)) = Some N"
proof -
  have "snd (main env) = Some (of_nat N)"
    using assms(5) by (simp add: main_child_ran [OF assms(2,3,4)])
  moreover have "unat (of_nat N :: 32 word) = N"
    using assms(1) by (simp add: unat_of_nat take_bit_nat_eq_self)
  ultimately show ?thesis by simp
qed

theorem C2_exit_code_forwarded_witness:
  "(3221225477 :: nat) < 2 ^ 32 \<and>
   fsExists (sample_os (Inr True) (Inr \<lparr>hProcess = 100, hThread = 104\<rparr>) True (Some 3221225477))
     (targetExe_of (sample_os (Inr True) (Inr \<lparr>hProcess = 100, hThread = 104\<rparr>) True
        (Some 3221225477))) = Inr True \<and>
   waitReturns (sample_os (Inr True) (Inr \<lparr>hProcess = 100, hThread = 104\<rparr>) True
     (Some 3221225477)) 100 \<and>
   map_option unat
     (snd (main (sample_os (Inr True) (Inr \<lparr>hProcess = 100, hThread = 104\<rparr>) True
        (Some 3221225477)))) = Some 3221225477"
proof -
  let ?pi = "\<lparr>hProcess = 100, hThread = 104\<rparr>"
  let ?E = "sample_os (Inr True) (Inr ?pi) True (Some 3221225477)"
  have n: "(3221225477 :: nat) < 2 ^ 32" by simp
  have f: "fsExists ?E (targetExe_of ?E) = Inr True"
    by (simp add: sample_os_fields)
  have c: "createProcess ?E (targetExe_of ?E) (cmdLine_of ?E) (appDir_of ?E) = Inr ?pi"
    by (simp add: sample_os_fields)
  have w: "waitReturns ?E (hProcess ?pi)"
    by (simp add: sample_os_fields)
  have q: "exitCodeQuery ?E (hProcess ?pi) = Some (of_nat 3221225477)"
    by (simp add: sample_os_fields)
  from C2_exit_code_forwarded [OF n f c w q]
  have "map_option unat (snd (main ?E)) = Some 3221225477" .
  with n f w show ?thesis by simp
qed

text \<open>
  The same 32 bits read as a C++ \<open>int\<close>: the value \<open>static_cast<int>\<close> yields is \<open>N\<close>
  below \<open>2^31\<close> and \<open>N - 2^32\<close> from there on.
\<close>

lemma main_returns_signed:
  assumes "N < 2 ^ 32"
    and "fsExists env (targetExe_of env) = Inr True"
    and "createProcess env (targetExe_of env) (cmdLine_of env) (appDir_of env) = Inr pi"
    and "waitReturns env (hProcess pi)"
    and "exitCodeQuery env (hProcess pi) = Some (of_nat N)"
  shows "map_option sint (snd (main env)) =
           Some (if N < 2 ^ 31 then int N else int N - 2 ^ 32)"
proof -
  have "snd (main env) = Some (of_nat N)"
    using assms(5) by (simp add: main_child_ran [OF assms(2,3,4)])
  then show ?thesis
    by (simp only: option.map sint_of_nat_32 [OF assms(1)])
qed

text \<open>
  Claim C10. When the spawn succeeded and the wait returned but \<open>GetExitCodeProcess\<close>
  fails, the launcher returns \<open>0\<close>, the value \<open>exitCode\<close> was initialised with, and
  reports nothing: no dialog, no line on the error stream. The run is the very run of an
  environment where the query succeeds with exit code \<open>0\<close>.
\<close>

theorem C10_failed_exit_code_query_returns_zero:
  assumes "fsExists env (targetExe_of env) = Inr True"
    and "createProcess env (targetExe_of env) (cmdLine_of env) (appDir_of env) = Inr pi"
    and "waitReturns env (hProcess pi)"
    and "exitCodeQuery env (hProcess pi) = None"
  shows "snd (main env) = Some 0 \<and>
         dialogs (fst (main env)) = [] \<and>
         stderr_lines (fst (main env)) = [] \<and>
         main env = main (env\<lparr>exitCodeQuery := (exitCodeQuery env)(hProcess pi := Some 0)\<rparr>)"
proof -
  let ?env' = "env\<lparr>exitCodeQuery := (exitCodeQuery env)(hProcess pi := Some 0)\<rparr>"
  have m: "main env =
      ([EvGetModuleFileNameW, EvFsExists (targetExe_of env),
        EvCreateProcessW (targetExe_of env) (cmdLine_of env) (appDir_of env) (Inr pi),
        EvWaitForSingleObject (hProcess pi), EvGetExitCodeProcess (hProcess pi),
        EvCloseHandle (hProcess pi), EvCloseHandle (hThread pi)], Some 0)"
    using assms(4) by (simp add: main_child_ran [OF assms(1,2,3)])
  have d: "launcherDir_of ?env' = launcherDir_of env"
    by (rule launcherDir_of_exitCodeQuery_update)
  have f': "fsExists ?env' (targetExe_of ?env') = Inr True"
    using assms(1) by (simp add: d)
  have c': "createProcess ?env' (targetExe_of ?env') (cmdLine_of ?env') (appDir_of ?env') = Inr pi"
    using assms(2) by (simp add: d)
  have w': "waitReturns ?env' (hProcess pi)"
    using assms(3) by simp
  have m': "main ?env' = main env"
    by (simp add: main_child_ran [OF f' c' w'] m d)
  show ?thesis
    by (simp add: m') (simp add: m)
qed

theorem C10_failed_exit_code_query_returns_zero_witness:
  "fsExists (sample_os (Inr True) (Inr \<lparr>hProcess = 100, hThread = 104\<rparr>) True None)
     (targetExe_of (sample_os (Inr True) (Inr \<lparr>hProcess = 100, hThread = 104\<rparr>) True None)) =
     Inr True \<and>
   waitReturns (sample_os (Inr True) (Inr \<lparr>hProcess = 100, hThread = 104\<rparr>) True None) 100 \<and>
   exitCodeQuery (sample_os (Inr True) (Inr \<lparr>hProcess = 100, hThread = 104\<rparr>) True None) 100 =
     None \<and>
   snd (main (sample_os (Inr True) (Inr \<lparr>hProcess = 100, hThread = 104\<rparr>) True None)) = Some 0 \<and>
   dialogs (fst (main (sample_os (Inr True) (Inr \<lparr>hProcess = 100, hThread = 104\<rparr>) True None))) =
     [] \<and>
   stderr_lines
     (fst (main (sample_os (Inr True) (Inr \<lparr>hProcess = 100, hThread = 104\<rparr>) True None))) = []"
proof -
  let ?pi = "\<lparr>hProcess = 100, hThread = 104\<rparr>"
  let ?E = "sample_os (Inr True) (Inr ?pi) True None"
  have f: "fsExists ?E (targetExe_of ?E) = Inr True"
    by (simp add: sample_os_fields)
  have c: "createProcess ?E (targetExe_of ?E) (cmdLine_of ?E) (appDir_of ?E) = Inr ?pi"
    by (simp add: sample_os_fields)
  have w: "waitReturns ?E (hProcess ?pi)"
    by (simp add: sample_os_fields)
  have q: "exitCodeQuery ?E (hProcess ?pi) = None"
    by (simp add: sample_os_fields)
  from C10_failed_exit_code_query_returns_zero [OF f c w q]
  have "snd (main ?E) = Some 0 \<and> dialogs (fst (main ?E)) = [] \<and>
        stderr_lines (fst (main ?E)) = []"
    by blast
  with f w q show ?thesis by simp
qed

subsection \<open>The existence gate\<close>




subsection \<open>What is spawned, and how often\<close>

text \<open>
  Claim C4. For the install directory \<open>D\<close> that the self-directory step returns, the
  target path is exactly \<open>D\<close>, the separator, \<open>app\<close>, the separator and
  \<open>imapviewer.exe\<close>: this is the one path whose existence is checked and the application
  name of every process creation. \<open>D\<close> is read from the module file name alone; no
  other answer of the environment changes it, and the program reads no working
  directory, environment variable, argument or file.
\<close>

theorem C4_target_path:
  "existence_checks (fst (main env)) =
     [launcherDir_of env @ L backslash @ L ''app'' @ L backslash @ L ''imapviewer.exe''] \<and>
   ((app, cmd, cwd) \<in> set (spawns (fst (main env))) \<longrightarrow>
      app = launcherDir_of env @ L backslash @ L ''app'' @ L backslash @ L ''imapviewer.exe'') \<and>
   launcherDir_of (env\<lparr>fsExists := f, createProcess := c, waitReturns := w,
                       exitCodeQuery := q\<rparr>) = launcherDir_of env"
proof -
  have t: "launcherDir_of env @ L backslash @ L ''app'' @ L backslash @ L ''imapviewer.exe'' =
      targetExe_of env"
    by (simp add: L_def)
  have s: "(app, cmd, cwd) \<in> set (spawns (fst (main env))) \<longrightarrow> app = targetExe_of env"
    by (simp add: spawns_main)
  show ?thesis
    unfolding t using s by (simp add: existence_checks_main launcherDir_of_update)
qed

theorem C4_target_path_witness:
  "(L (''C:'' @ backslash @ ''IMAPViewer'' @ backslash @ ''app'' @ backslash @ ''imapviewer.exe''),
    L (dquote @ ''C:'' @ backslash @ ''IMAPViewer'' @ backslash @ ''app'' @ backslash @
       ''imapviewer.exe'' @ dquote),
    L (''C:'' @ backslash @ ''IMAPViewer'' @ backslash @ ''app''))
     \<in> set (spawns (fst (main (sample_os (Inr True) (Inl 193) True None)))) \<and>
   launcherDir_of (sample_os (Inr True) (Inl 193) True None) =
     L (''C:'' @ backslash @ ''IMAPViewer'') \<and>
   existence_checks (fst (main (sample_os (Inr True) (Inl 193) True None))) =
     [L (''C:'' @ backslash @ ''IMAPViewer'') @ L backslash @ L ''app'' @ L backslash @
      L ''imapviewer.exe'']"
proof -
  let ?E = "sample_os (Inr True) (Inl 193) True None"
  let ?T = "L (''C:'' @ backslash @ ''IMAPViewer'' @ backslash @ ''app'' @ backslash @
               ''imapviewer.exe'')"
  let ?Q = "L (dquote @ ''C:'' @ backslash @ ''IMAPViewer'' @ backslash @ ''app'' @ backslash @
               ''imapviewer.exe'' @ dquote)"
  let ?W = "L (''C:'' @ backslash @ ''IMAPViewer'' @ backslash @ ''app'')"
  have h: "(?T, ?Q, ?W) \<in> set (spawns (fst (main ?E)))"
    by (simp add: spawns_main sample_os_fields sample_os_dir L_def)
  from C4_target_path [of ?E ?T ?Q ?W]
  have "existence_checks (fst (main ?E)) =
      [launcherDir_of ?E @ L backslash @ L ''app'' @ L backslash @ L ''imapviewer.exe'']"
    by blast
  with h show ?thesis by (simp add: sample_os_dir)
qed

text \<open>
  Claim C5. One run of the launcher creates at most one child process, whatever
  happens: there is never more than one call of \<open>CreateProcessW\<close>, and once the target
  was found there is exactly one, whether it succeeds or fails (a failed spawn is not
  tried again).
\<close>

theorem C5_single_spawn:
  "length (spawns (fst (main env))) \<le> 1 \<and>
   (fsExists env (targetExe_of env) = Inr True \<longrightarrow> length (spawns (fst (main env))) = 1)"
  by (simp add: spawns_main)

theorem C5_single_spawn_witness:
  "fsExists (sample_os (Inr True) (Inl 5) True None)
     (targetExe_of (sample_os (Inr True) (Inl 5) True None)) = Inr True \<and>
   createProcess (sample_os (Inr True) (Inl 5) True None)
     (targetExe_of (sample_os (Inr True) (Inl 5) True None))
     (cmdLine_of (sample_os (Inr True) (Inl 5) True None))
     (appDir_of (sample_os (Inr True) (Inl 5) True None)) = Inl 5 \<and>
   length (spawns (fst (main (sample_os (Inr True) (Inl 5) True None)))) = 1"
proof -
  let ?E = "sample_os (Inr True) (Inl 5) True None"
  have f: "fsExists ?E (targetExe_of ?E) = Inr True"
    by (simp add: sample_os_fields)
  have c: "createProcess ?E (targetExe_of ?E) (cmdLine_of ?E) (appDir_of ?E) = Inl 5"
    by (simp add: sample_os_fields)
  from C5_single_spawn [of ?E] f
  have "length (spawns (fst (main ?E))) = 1" by blast
  with f c show ?thesis by blast
qed

text \<open>
  Claim C8. The command line given to the child is exactly the target path between two
  double quotes, with nothing after it, and the application name is the target path
  itself. \<open>main\<close> takes no parameters and never reads the launcher's own command line,
  so nothing of it can reach the child.
\<close>

theorem C8_command_line:
  assumes "(app, cmd, cwd) \<in> set (spawns (fst (main env)))"
  shows "app = targetExe_of env \<and> cmd = L dquote @ targetExe_of env @ L dquote"
  using assms by (simp add: spawns_main split: if_splits)

theorem C8_command_line_witness:
  "(L (''C:'' @ backslash @ ''IMAPViewer'' @ backslash @ ''app'' @ backslash @ ''imapviewer.exe''),
    L (dquote @ ''C:'' @ backslash @ ''IMAPViewer'' @ backslash @ ''app'' @ backslash @
       ''imapviewer.exe'' @ dquote),
    L (''C:'' @ backslash @ ''IMAPViewer'' @ backslash @ ''app''))
     \<in> set (spawns (fst (main
          (sample_os (Inr True) (Inr \<lparr>hProcess = 100, hThread = 104\<rparr>) True (Some 0))))) \<and>
   L (dquote @ ''C:'' @ backslash @ ''IMAPViewer'' @ backslash @ ''app'' @ backslash @
      ''imapviewer.exe'' @ dquote) =
   L dquote @
   targetExe_of (sample_os (Inr True) (Inr \<lparr>hProcess = 100, hThread = 104\<rparr>) True (Some 0)) @
   L dquote"
proof -
  let ?E = "sample_os (Inr True) (Inr \<lparr>hProcess = 100, hThread = 104\<rparr>) True (Some 0)"
  let ?T = "L (''C:'' @ backslash @ ''IMAPViewer'' @ backslash @ ''app'' @ backslash @
               ''imapviewer.exe'')"
  let ?Q = "L (dquote @ ''C:'' @ backslash @ ''IMAPViewer'' @ backslash @ ''app'' @ backslash @
               ''imapviewer.exe'' @ dquote)"
  let ?W = "L (''C:'' @ backslash @ ''IMAPViewer'' @ backslash @ ''app'')"
  have h: "(?T, ?Q, ?W) \<in> set (spawns (fst (main ?E)))"
    by (simp add: spawns_main sample_os_fields sample_os_dir L_def)
  from C8_command_line [OF h]
  have "?Q = L dquote @ targetExe_of ?E @ L dquote" by blast
  with h show ?thesis by blast
qed

text \<open>
  Claim C9. The working directory given to \<open>CreateProcessW\<close> is exactly the launcher's
  own directory \<open>D\<close> followed by the separator and \<open>app\<close>.
\<close>

theorem C9_working_directory:
  assumes "(app, cmd, cwd) \<in> set (spawns (fst (main env)))"
  shows "cwd = launcherDir_of env @ L backslash @ L ''app''"
  using assms by (simp add: spawns_main L_def split: if_splits)

theorem C9_working_directory_witness:
  "(L (''C:'' @ backslash @ ''IMAPViewer'' @ backslash @ ''app'' @ backslash @ ''imapviewer.exe''),
    L (dquote @ ''C:'' @ backslash @ ''IMAPViewer'' @ backslash @ ''app'' @ backslash @
       ''imapviewer.exe'' @ dquote),
    L (''C:'' @ backslash @ ''IMAPViewer'' @ backslash @ ''app''))
     \<in> set (spawns (fst (main
          (sample_os (Inr True) (Inr \<lparr>hProcess = 7, hThread = 8\<rparr>) False None)))) \<and>
   L (''C:'' @ backslash @ ''IMAPViewer'' @ backslash @ ''app'') =
   launcherDir_of (sample_os (Inr True) (Inr \<lparr>hProcess = 7, hThread = 8\<rparr>) False None) @
   L backslash @ L ''app''"
proof -
  let ?E = "sample_os (Inr True) (Inr \<lparr>hProcess = 7, hThread = 8\<rparr>) False None"
  let ?T = "L (''C:'' @ backslash @ ''IMAPViewer'' @ backslash @ ''app'' @ backslash @
               ''imapviewer.exe'')"
  let ?Q = "L (dquote @ ''C:'' @ backslash @ ''IMAPViewer'' @ backslash @ ''app'' @ backslash @
               ''imapviewer.exe'' @ dquote)"
  let ?W = "L (''C:'' @ backslash @ ''IMAPViewer'' @ backslash @ ''app'')"
  have h: "(?T, ?Q, ?W) \<in> set (spawns (fst (main ?E)))"
    by (simp add: spawns_main sample_os_fields sample_os_dir L_def)
  from C9_working_directory [OF h]
  have "?W = launcherDir_of ?E @ L backslash @ L ''app''" .
  with h show ?thesis by blast
qed


subsection \<open>Handles\<close>

text \<open>
  Claim C6. On every path on which the launcher returns after it acquired the child's
  process and thread handles (the spawn succeeded), both handles have been closed: no
  handle acquired during the run is still open when \<open>main\<close> returns, and a successful
  \<open>CreateProcessW\<close> in the trace comes with a \<open>CloseHandle\<close> for each of its two
  handles.
\<close>

theorem C6_handles_released:
  assumes "snd (main env) = Some r"
  shows "open_handles [] (fst (main env)) = [] \<and>
         (EvCreateProcessW app cmd cwd (Inr pi) \<in> set (fst (main env)) \<longrightarrow>
            EvCloseHandle (hProcess pi) \<in> set (fst (main env)) \<and>
            EvCloseHandle (hThread pi) \<in> set (fst (main env)))"
proof (cases env rule: main_cases)
  case (throws e)
  then show ?thesis
    by (cases e) (simp_all add: main_throws_std main_throws_other ShowError_def)
next
  case not_found
  then show ?thesis by (simp add: main_not_found ShowError_def)
next
  case (spawn_failed code)
  then show ?thesis by (simp add: main_spawn_failed)
next
  case (child_ran p)
  then show ?thesis by (simp add: main_child_ran)
next
  case (child_hangs p)
  with assms show ?thesis by (simp add: main_child_hangs)
qed

theorem C6_handles_released_witness:
  "snd (main (sample_os (Inr True) (Inr \<lparr>hProcess = 100, hThread = 104\<rparr>) True (Some 42))) =
     Some 42 \<and>
   EvCreateProcessW
     (L (''C:'' @ backslash @ ''IMAPViewer'' @ backslash @ ''app'' @ backslash @ ''imapviewer.exe''))
     (L (dquote @ ''C:'' @ backslash @ ''IMAPViewer'' @ backslash @ ''app'' @ backslash @
         ''imapviewer.exe'' @ dquote))
     (L (''C:'' @ backslash @ ''IMAPViewer'' @ backslash @ ''app''))
     (Inr \<lparr>hProcess = 100, hThread = 104\<rparr>)
     \<in> set (fst (main
          (sample_os (Inr True) (Inr \<lparr>hProcess = 100, hThread = 104\<rparr>) True (Some 42)))) \<and>
   open_handles []
     (fst (main (sample_os (Inr True) (Inr \<lparr>hProcess = 100, hThread = 104\<rparr>) True (Some 42)))) =
     [] \<and>
   EvCloseHandle 100
     \<in> set (fst (main
          (sample_os (Inr True) (Inr \<lparr>hProcess = 100, hThread = 104\<rparr>) True (Some 42)))) \<and>
   EvCloseHandle 104
     \<in> set (fst (main
          (sample_os (Inr True) (Inr \<lparr>hProcess = 100, hThread = 104\<rparr>) True (Some 42))))"
proof -
  let ?pi = "\<lparr>hProcess = 100, hThread = 104\<rparr>"
  let ?E = "sample_os (Inr True) (Inr ?pi) True (Some 42)"
  let ?T = "L (''C:'' @ backslash @ ''IMAPViewer'' @ backslash @ ''app'' @ backslash @
               ''imapviewer.exe'')"
  let ?Q = "L (dquote @ ''C:'' @ backslash @ ''IMAPViewer'' @ backslash @ ''app'' @ backslash @
               ''imapviewer.exe'' @ dquote)"
  let ?W = "L (''C:'' @ backslash @ ''IMAPViewer'' @ backslash @ ''app'')"
  have f: "fsExists ?E (targetExe_of ?E) = Inr True"
    by (simp add: sample_os_fields)
  have c: "createProcess ?E (targetExe_of ?E) (cmdLine_of ?E) (appDir_of ?E) = Inr ?pi"
    by (simp add: sample_os_fields)
  have w: "waitReturns ?E (hProcess ?pi)"
    by (simp add: sample_os_fields)
  have r: "snd (main ?E) = Some 42"
    by (simp add: main_child_ran [OF f c w] sample_os_fields)
  have s: "EvCreateProcessW ?T ?Q ?W (Inr ?pi) \<in> set (fst (main ?E))"
    by (simp add: main_child_ran [OF f c w] sample_os_dir L_def)
  from C6_handles_released [OF r, of ?T ?Q ?W ?pi] s
  have "open_handles [] (fst (main ?E)) = [] \<and>
        EvCloseHandle 100 \<in> set (fst (main ?E)) \<and> EvCloseHandle 104 \<in> set (fst (main ?E))"
    by simp
  with r s show ?thesis by blast
qed

subsection \<open>Exceptions\<close>

text \<open>
  An exception leaves the \<open>try\<close> block before anything was reported or spawned, and it
  is the exception of a failed string construction or of the existence check (lemmas
  \<open>main_try_throwing_Throws_iff\<close> and \<open>main_try_throwing_Throws_trace\<close>). If the handler
  itself cannot build its text, the exception of that construction leaves \<open>main\<close>.
\<close>

lemma main_throwing_handler_fails:
  assumes "snd (main_try_throwing strings env) = Throws e"
    and "strings HandlerMsg = Some e'"
  shows "main_throwing strings env = (fst (main_try_throwing strings env), Throws e')"
  using assms
  by (cases "main_try_throwing strings env"; cases e) (simp_all add: main_throwing_def)

lemma handler_failure_example:
  "main_throwing ((failure_at ExecPath (StdException (S ''bad allocation'')))
                    (HandlerMsg := Some (StdException (S ''bad allocation''))))
     (sample_os (Inr True) (Inl 5) True None) =
   ([EvGetModuleFileNameW], Throws (StdException (S ''bad allocation'')))"
  by (simp add: main_throwing_def main_try_throwing_def GetExecutableDirectory_throwing_def
      failure_at_def)




subsection \<open>A failed spawn\<close>

text \<open>
  Claim C1, at the run where the target exists and \<open>CreateProcessW\<close> fails with error
  193 (the file is not a valid executable image): the launcher returns \<open>1\<close> and writes
  the message with the error code to the error stream, but it shows no dialog.
  \<open>LaunchApplication\<close> writes to \<open>std::wcerr\<close> itself and \<open>main\<close> returns the \<open>1\<close>
  without calling \<open>ShowError\<close>.
\<close>

theorem C1_failed_spawn_shows_no_dialog:
  "main (sample_os (Inr True) (Inl 193) True None) =
     ([EvGetModuleFileNameW,
       EvFsExists (L (''C:'' @ backslash @ ''IMAPViewer'' @ backslash @ ''app'' @ backslash @
                      ''imapviewer.exe'')),
       EvCreateProcessW
         (L (''C:'' @ backslash @ ''IMAPViewer'' @ backslash @ ''app'' @ backslash @
             ''imapviewer.exe''))
         (L (dquote @ ''C:'' @ backslash @ ''IMAPViewer'' @ backslash @ ''app'' @ backslash @
             ''imapviewer.exe'' @ dquote))
         (L (''C:'' @ backslash @ ''IMAPViewer'' @ backslash @ ''app''))
         (Inl 193),
       EvGetLastError,
       EvWcerr (S (''Failed to launch application. Error code: 193'' @ newline))],
      Some 1) \<and>
   dialogs (fst (main (sample_os (Inr True) (Inl 193) True None))) = [] \<and>
   stderr_lines (fst (main (sample_os (Inr True) (Inl 193) True None))) =
     [S (''Failed to launch application. Error code: 193'' @ newline)]"
proof -
  let ?E = "sample_os (Inr True) (Inl 193) True None"
  have f: "fsExists ?E (targetExe_of ?E) = Inr True"
    by (simp add: sample_os_fields)
  have c: "createProcess ?E (targetExe_of ?E) (cmdLine_of ?E) (appDir_of ?E) = Inl 193"
    by (simp add: sample_os_fields)
  have d: "wdec 193 = L ''193''"
    by (simp add: wdec.simps wdigit_def L_def)
  show ?thesis
    by (simp add: main_spawn_failed [OF f c] d sample_os_dir L_def S_def newline_def
        wcerr_line_def narrowable_def)
qed

text \<open>
  The same for every failed spawn: exit code \<open>1\<close>, one line with the error code on the
  error stream, no dialog.
\<close>

lemma failed_spawn_report:
  assumes "fsExists env (targetExe_of env) = Inr True"
    and "createProcess env (targetExe_of env) (cmdLine_of env) (appDir_of env) = Inl code"
  shows "snd (main env) = Some 1 \<and>
         dialogs (fst (main env)) = [] \<and>
         stderr_lines (fst (main env)) =
           [wcerr_line (L ''Failed to launch application. Error code: '' @ wdec (unat code))]"
  by (simp add: main_spawn_failed [OF assms])

end
